theory Spec2Isabelle
  imports Main "HOL-Library.AList"
begin

section \<open>The Python frontend of DaCe: \<^verbatim>\<open>dace/frontend/python/parser.py\<close>\<close>

subsection \<open>Exceptions\<close>

text \<open>
  Every \<^verbatim>\<open>raise\<close> of the module is a value. \<open>TypeError\<close>, \<open>SyntaxError\<close> carry the
  message of the source; \<open>AttributeError\<close> and \<open>KeyError\<close> carry the attribute or key that
  was looked up, \<open>NameError\<close> the global name that is not bound; \<open>Raised\<close> is an exception
  that comes out of a collaborator (the AST parser, the dependency analysis, the SDFG).
\<close>

datatype exn =
    TypeError string
  | SyntaxError string
  | NameError string
  | AttributeError string
  | KeyError string
  | Raised string

fun usage_error :: "exn \<Rightarrow> bool" where
  "usage_error (TypeError m) = True"
| "usage_error (SyntaxError m) = True"
| "usage_error e = False"

subsection \<open>Data descriptors\<close>

text \<open>
  Modelled from the spec: the classes \<^verbatim>\<open>dtypes.typeclass\<close>, \<^verbatim>\<open>data.Data\<close>,
  \<^verbatim>\<open>data.Array\<close>, \<^verbatim>\<open>data.Scalar\<close> (module \<^verbatim>\<open>dace.data\<close>, \<^verbatim>\<open>dace.dtypes\<close>) are not part
  of the sources at hand. Following sections 3 and 4.1 of the specification a descriptor is
  an array, a scalar or a stream with an element type (and a shape), a type class wraps a
  host type, and building one is total.
\<close>

type_synonym pytype = string

datatype dim = IntDim int | SymDim string

type_synonym shape = "dim list"

datatype typeclass = Typeclass pytype

datatype data =
    Array typeclass shape
  | Scalar typeclass
  | Stream typeclass shape

fun dtype :: "data \<Rightarrow> typeclass" where
  "dtype (Array t s) = t"
| "dtype (Scalar t) = t"
| "dtype (Stream t s) = t"

fun is_Scalar :: "data \<Rightarrow> bool" where
  "is_Scalar (Scalar t) = True"
| "is_Scalar d = False"

subsection \<open>Host values\<close>

text \<open>
  Modelled from the spec: \<^verbatim>\<open>symbolic.issymbolic\<close>, \<^verbatim>\<open>symbolic.symtype\<close>,
  \<^verbatim>\<open>symbolic.symbol\<close>, \<^verbatim>\<open>dtypes.isallowed\<close> and \<^verbatim>\<open>dtypes.ismodule\<close> are not part of the
  sources at hand; the fields \<open>symbolic_type\<close>, \<open>as_symbol\<close>, \<open>allowed\<close> and \<open>as_module\<close>
  hold what they answer for the value.

  A host value is seen through the tests and attributes the module applies to it.
  The tests are independent of each other (a Python object can pass several
  \<^verbatim>\<open>isinstance\<close> tests at once), which is why the order of the tests matters.

  \<^item> \<open>as_Data\<close>: \<^verbatim>\<open>isinstance(obj, data.Data)\<close>, and then the object as a descriptor;
  \<^item> \<open>descriptor_attr\<close>: the attribute \<^verbatim>\<open>obj.descriptor\<close>, when the object has one;
  \<^item> \<open>as_ndarray\<close>: \<^verbatim>\<open>isinstance(obj, numpy.ndarray)\<close>, and then
    \<^verbatim>\<open>(obj.dtype.type, obj.shape)\<close>;
  \<^item> \<open>symbolic_type\<close>: \<^verbatim>\<open>symbolic.issymbolic(obj)\<close>, and then \<^verbatim>\<open>symbolic.symtype(obj)\<close>;
  \<^item> \<open>as_typeclass\<close>: \<^verbatim>\<open>isinstance(obj, dtypes.typeclass)\<close>, and then the object;
  \<^item> \<open>pytype\<close>: \<^verbatim>\<open>type(obj)\<close>;
  \<^item> \<open>allowed\<close>: \<^verbatim>\<open>dtypes.isallowed(obj)\<close>;
  \<^item> \<open>as_module\<close>: \<^verbatim>\<open>dtypes.ismodule(obj)\<close>, and then \<^verbatim>\<open>obj.__name__\<close>;
  \<^item> \<open>as_symbol\<close>: \<^verbatim>\<open>isinstance(obj, symbolic.symbol)\<close>, and then \<^verbatim>\<open>obj.name\<close>.
\<close>

record pyobj =
  as_Data :: "data option"
  descriptor_attr :: "data option"
  as_ndarray :: "(pytype \<times> shape) option"
  symbolic_type :: "typeclass option"
  as_typeclass :: "typeclass option"
  pytype :: pytype
  allowed :: bool
  as_module :: "string option"
  as_symbol :: "string option"

subsection \<open>\<^verbatim>\<open>_create_datadescriptor\<close>\<close>

text \<open>The attribute access \<^verbatim>\<open>obj.descriptor\<close>, which raises when the attribute is absent.\<close>

definition getattr_descriptor :: "pyobj \<Rightarrow> exn + data" where
  "getattr_descriptor obj =
     (case descriptor_attr obj of
        None \<Rightarrow> Inl (AttributeError ''descriptor'')
      | Some d \<Rightarrow> Inr d)"

text \<open>
  \<^verbatim>\<open>
  def _create_datadescriptor(obj):
      if isinstance(obj, data.Data):
          return obj
      try:
          return obj.descriptor
      except AttributeError:
          if isinstance(obj, numpy.ndarray):
              return data.Array(dtype=dtypes.typeclass(obj.dtype.type), shape=obj.shape)
          if symbolic.issymbolic(obj):
              return data.Scalar(symbolic.symtype(obj))
          if isinstance(obj, dtypes.typeclass):
              return data.Scalar(obj)
          return data.Scalar(dtypes.typeclass(type(obj)))
  \<close>
  The handler catches \<open>AttributeError\<close> only; any other exception of the \<^verbatim>\<open>try\<close> block
  propagates.
\<close>

definition create_datadescriptor :: "pyobj \<Rightarrow> exn + data" where
  "create_datadescriptor obj =
     (case as_Data obj of
        Some d \<Rightarrow> Inr d
      | None \<Rightarrow>
          (case getattr_descriptor obj of
             Inr d \<Rightarrow> Inr d
           | Inl (AttributeError a) \<Rightarrow>
               (case as_ndarray obj of
                  Some (t, shp) \<Rightarrow> Inr (Array (Typeclass t) shp)
                | None \<Rightarrow>
                    (case symbolic_type obj of
                       Some t \<Rightarrow> Inr (Scalar t)
                     | None \<Rightarrow>
                         (case as_typeclass obj of
                            Some tc \<Rightarrow> Inr (Scalar tc)
                          | None \<Rightarrow> Inr (Scalar (Typeclass (pytype obj))))))
           | Inl e \<Rightarrow> Inl e))"

subsection \<open>The dispatch of section 4.1, in the specification's words\<close>

text \<open>
  The specification describes the resolver as a dispatch over the closed set of variants
  \<open>AlreadyDescribed\<close>, \<open>NumericArray\<close>, \<open>SymbolicExpr\<close>, \<open>TypeTag\<close>, \<open>Fallback\<close>, tried in this
  order. \<open>arm v obj\<close> is the descriptor the arm \<open>v\<close> produces, or \<open>None\<close> when the arm does
  not apply to \<open>obj\<close>; \<open>first_arm\<close> tries a list of arms in order.
\<close>

datatype variant = AlreadyDescribed | NumericArray | SymbolicExpr | TypeTag | Fallback

fun arm :: "variant \<Rightarrow> pyobj \<Rightarrow> data option" where
  "arm AlreadyDescribed obj =
     (case as_Data obj of Some d \<Rightarrow> Some d | None \<Rightarrow> descriptor_attr obj)"
| "arm NumericArray obj =
     (case as_ndarray obj of Some (t, shp) \<Rightarrow> Some (Array (Typeclass t) shp) | None \<Rightarrow> None)"
| "arm SymbolicExpr obj =
     (case symbolic_type obj of Some t \<Rightarrow> Some (Scalar t) | None \<Rightarrow> None)"
| "arm TypeTag obj =
     (case as_typeclass obj of Some tc \<Rightarrow> Some (Scalar tc) | None \<Rightarrow> None)"
| "arm Fallback obj = Some (Scalar (Typeclass (pytype obj)))"

fun first_arm :: "variant list \<Rightarrow> pyobj \<Rightarrow> data option" where
  "first_arm [] obj = None"
| "first_arm (v # vs) obj =
     (case arm v obj of Some d \<Rightarrow> Some d | None \<Rightarrow> first_arm vs obj)"

definition priority_order :: "variant list" where
  "priority_order = [AlreadyDescribed, NumericArray, SymbolicExpr, TypeTag, Fallback]"

text \<open>The descriptor of a host value, as a total function.\<close>

definition descriptor_of :: "pyobj \<Rightarrow> data" where
  "descriptor_of obj =
     (case first_arm priority_order obj of
        Some d \<Rightarrow> d
      | None \<Rightarrow> Scalar (Typeclass (pytype obj)))"

subsection \<open>Python dictionaries and strings\<close>

text \<open>
  A dictionary is an association list in insertion order with one entry per key.
  Storing under a key that is present replaces the value and keeps the position; storing
  under a new key appends: \<^const>\<open>AList.update\<close>. \<open>dict_update d kvs\<close> is
  \<^verbatim>\<open>d.update(kvs)\<close>, \<open>dict_of kvs\<close> a dictionary display or comprehension that
  produces the items \<open>kvs\<close> in order.
\<close>

definition dict_update :: "('k \<times> 'v) list \<Rightarrow> ('k \<times> 'v) list \<Rightarrow> ('k \<times> 'v) list" where
  "dict_update d kvs = fold (\<lambda>(k, v). AList.update k v) kvs d"

definition dict_of :: "('k \<times> 'v) list \<Rightarrow> ('k \<times> 'v) list" where
  "dict_of kvs = dict_update [] kvs"

text \<open>\<^verbatim>\<open>str(n)\<close> of a natural number: its decimal digits.\<close>

definition digits :: string where
  "digits = ''0123456789''"

function str_nat :: "nat \<Rightarrow> string" where
  "str_nat n = (if n < 10 then [digits ! n] else str_nat (n div 10) @ [digits ! (n mod 10)])"
  by pat_completeness auto
termination
  by (relation "measure id") auto

declare str_nat.simps [simp del]

text \<open>A comprehension whose element expression can raise stops at the first exception.\<close>

fun mapM_exn :: "('a \<Rightarrow> exn + 'b) \<Rightarrow> 'a list \<Rightarrow> exn + 'b list" where
  "mapM_exn g [] = Inr []"
| "mapM_exn g (x # xs) =
     (case g x of
        Inl e \<Rightarrow> Inl e
      | Inr y \<Rightarrow> (case mapM_exn g xs of Inl e \<Rightarrow> Inl e | Inr ys \<Rightarrow> Inr (y # ys)))"

text \<open>\<^verbatim>\<open>{k: _create_datadescriptor(v) for k, v in items}\<close>\<close>

definition descriptor_dict :: "(string \<times> pyobj) list \<Rightarrow> exn + (string \<times> data) list" where
  "descriptor_dict items =
     (case mapM_exn (\<lambda>(k, v). case create_datadescriptor v of
                                 Inl e \<Rightarrow> Inl e
                               | Inr d \<Rightarrow> Inr (k, d)) items of
        Inl e \<Rightarrow> Inl e
      | Inr kds \<Rightarrow> Inr (dict_of kds))"

subsection \<open>Callables and \<^verbatim>\<open>_get_type_annotations\<close>\<close>

text \<open>
  The decorated Python function: its \<^verbatim>\<open>__name__\<close>, the positional parameter names
  that \<^verbatim>\<open>inspect.getfullargspec(f).args\<close> reports, its \<^verbatim>\<open>__annotations__\<close> dictionary
  (\<open>None\<close> when the object has no such attribute) and its \<^verbatim>\<open>__globals__\<close>.
\<close>

record pyfunction =
  fn_name :: string
  fn_args :: "string list"
  fn_annotations :: "(string \<times> pyobj) list option"
  fn_globals :: "(string \<times> pyobj) list"

text \<open>
  \<^verbatim>\<open>
  type_annotations = {}
  if hasattr(f, '__annotations__'):
      type_annotations.update(f.__annotations__)
  \<close>
\<close>

definition type_annotations_of :: "pyfunction \<Rightarrow> (string \<times> pyobj) list" where
  "type_annotations_of f =
     (case fn_annotations f of None \<Rightarrow> [] | Some a \<Rightarrow> dict_update [] a)"

definition msg_return_type :: string where
  "msg_return_type = ''DaCe programs do not have a return type''"

definition msg_not_both :: string where
  "msg_not_both = ''DaCe programs can only have decorator arguments ('@dace.program(...)') or type annotations ('def program(arr: type, ...)'), but not both''"

definition msg_decorator_count :: "nat \<Rightarrow> string" where
  "msg_decorator_count n =
     ''Decorator arguments must match number of DaCe program parameters (expecting ''
       @ str_nat n @ '')''"

definition msg_partial :: string where
  "msg_partial = ''Either none or all DaCe program parameters must have type annotations''"

definition get_type_annotations ::
  "pyfunction \<Rightarrow> string list \<Rightarrow> pyobj list \<Rightarrow> exn + (string \<times> data) list" where
  "get_type_annotations f f_argnames decorator_args =
     (let type_annotations = type_annotations_of f;
          has_args = (length decorator_args > 0);
          has_annotations = (length type_annotations > 0)
      in if ''return'' \<in> set (map fst type_annotations) then Inl (TypeError msg_return_type)
         else if has_args \<and> has_annotations then Inl (SyntaxError msg_not_both)
         else if has_args then
           (if length decorator_args \<noteq> length f_argnames
            then Inl (SyntaxError (msg_decorator_count (length f_argnames)))
            else descriptor_dict (zip f_argnames decorator_args))
         else if has_annotations \<and> length type_annotations \<noteq> length f_argnames
           then Inl (SyntaxError msg_partial)
         else descriptor_dict type_annotations)"

text \<open>
  \<^verbatim>\<open>_get_argnames\<close>: the positional parameter names (the \<^verbatim>\<open>getargspec\<close> fallback of
  old interpreters reports the same list).
\<close>

definition get_argnames :: "pyfunction \<Rightarrow> string list option" where
  "get_argnames f = Some (fn_args f)"

subsection \<open>\<^verbatim>\<open>DaceProgram\<close>\<close>

record DaceProgram =
  prog_f :: pyfunction
  prog_args :: "pyobj list"
  prog_kwargs :: "(string \<times> pyobj) list"
  prog_name :: string
  argnames :: "string list"

text \<open>\<^verbatim>\<open>DaceProgram.__init__\<close>\<close>

definition DaceProgram_init ::
  "pyfunction \<Rightarrow> pyobj list \<Rightarrow> (string \<times> pyobj) list \<Rightarrow> DaceProgram" where
  "DaceProgram_init f args kwargs =
     \<lparr> prog_f = f, prog_args = args, prog_kwargs = kwargs, prog_name = fn_name f,
       argnames = (case get_argnames f of None \<Rightarrow> [] | Some ns \<Rightarrow> ns) \<rparr>"

subsection \<open>Collaborators and traces\<close>

text \<open>
  The parsed program that the external AST parser returns: its name, its source text, its
  child primitives and the types of its arguments.
\<close>

record 'prim pdp =
  pdp_name :: string
  pdp_source :: string
  pdp_children :: "'prim list"
  pdp_argtypes :: "(string \<times> data) list"

text \<open>
  The calls that leave the module, in the order they are made. The call of the AST parser
  records the argument types it is given; a call that stores under a name records the name.
\<close>

datatype event =
    ParseDaceProgram "(string \<times> data) list"
  | NewSDFG
  | SetSourcecode
  | InheritDependencies
  | CreateStatesSimple
  | AllArrays
  | AddDatadesc string
  | AddSymbol string
  | TopologicalSort
  | SetLabel string
  | BuildDataflowGraph
  | FillScopeConnectors
  | PropagateLabels
  | DrawToFile
  | ApplyStrictTransformations
  | Validate
  | OpenFile string
  | CompileModule string

text \<open>
  The code of the collaborators (\<^verbatim>\<open>astparser\<close>, \<^verbatim>\<open>depanalysis\<close>, \<^verbatim>\<open>labeling\<close>, the
  class \<^verbatim>\<open>SDFG\<close>, the file system and the interpreter) is not part of the sources at
  hand, so each of them is a parameter. \<open>'prim\<close> is a primitive of the parsed program,
  \<open>'st\<close> a state of the SDFG and \<open>'s\<close> the SDFG object; a method that mutates the SDFG
  returns the new one, and every call can raise. Attribute reads
  (\<^verbatim>\<open>sdfg.arrays\<close>, \<^verbatim>\<open>sdfg.start_state\<close>, \<^verbatim>\<open>sdfg.propagate\<close>, \<^verbatim>\<open>state.label\<close>) and the
  assignment \<^verbatim>\<open>sdfg._symbols = set()\<close> do not raise.
  \<open>open_read\<close> opens and reads a file; \<open>compile_module\<close> is \<^verbatim>\<open>_compile_module\<close>, which
  hands the text to the builtins \<^verbatim>\<open>compile\<close> and \<^verbatim>\<open>exec\<close> and returns the bindings of
  the executed module, a bound value being \<open>Some prog\<close> when it is a \<^verbatim>\<open>DaceProgram\<close>
  and \<open>None\<close> when it is anything else.
\<close>

record ('prim, 'st, 's) collaborators =
  parse_dace_program ::
    "pyfunction \<Rightarrow> (string \<times> data) list \<Rightarrow> (string \<times> pyobj) list
      \<Rightarrow> (string \<times> string) list \<Rightarrow> exn + 'prim pdp"
  all_arrays :: "'prim pdp \<Rightarrow> exn + (string \<times> data) list"
  inherit_dependencies :: "'prim \<Rightarrow> exn + 'prim"
  create_states_simple :: "'prim pdp \<Rightarrow> 's \<Rightarrow> exn + (('st \<Rightarrow> 'prim list option) \<times> 's)"
  build_dataflow_graph ::
    "'s \<Rightarrow> 'st \<Rightarrow> 'prim list \<Rightarrow> (string \<times> string) list \<Rightarrow> exn + 's"
  propagate_labels_sdfg :: "'s \<Rightarrow> exn + 's"
  SDFG :: "string \<Rightarrow> exn + 's"
  set_sourcecode :: "string \<Rightarrow> string \<Rightarrow> 's \<Rightarrow> exn + 's"
  add_datadesc :: "string \<Rightarrow> data \<Rightarrow> 's \<Rightarrow> exn + 's"
  clear_symbols :: "'s \<Rightarrow> 's"
  arrays :: "'s \<Rightarrow> string \<Rightarrow> data option"
  add_symbol :: "string \<Rightarrow> typeclass \<Rightarrow> bool \<Rightarrow> 's \<Rightarrow> exn + 's"
  start_state :: "'s \<Rightarrow> 'st"
  topological_sort :: "'s \<Rightarrow> 'st \<Rightarrow> exn + 'st list"
  label :: "'s \<Rightarrow> 'st \<Rightarrow> string option"
  set_label :: "'st \<Rightarrow> string \<Rightarrow> 's \<Rightarrow> exn + 's"
  fill_scope_connectors :: "'s \<Rightarrow> exn + 's"
  propagate :: "'s \<Rightarrow> bool"
  draw_to_file :: "bool \<Rightarrow> 's \<Rightarrow> exn + 's"
  apply_strict_transformations :: "'s \<Rightarrow> exn + 's"
  validate :: "'s \<Rightarrow> exn + 's"
  open_read :: "string \<Rightarrow> exn + string"
  compile_module :: "string \<Rightarrow> string \<Rightarrow> exn + (string \<times> DaceProgram option) list"

text \<open>\<^verbatim>\<open>Config.get_bool(section, key)\<close>\<close>

type_synonym config = "string \<Rightarrow> string \<Rightarrow> bool"

text \<open>
  A run is its outcome (the exception raised, or the value returned) together with the
  calls it made. \<open>ret\<close> returns, \<open>throw\<close> raises, \<open>pure_step\<close> is a computation of this
  module that makes no call, \<open>call ev r\<close> is a call of a collaborator with outcome \<open>r\<close>,
  and \<open>andthen\<close> sequences two runs: an exception ends the run.
\<close>

type_synonym 'a traced = "(exn + 'a) \<times> event list"

definition ret :: "'a \<Rightarrow> 'a traced" where
  "ret x = (Inr x, [])"

definition throw :: "exn \<Rightarrow> 'a traced" where
  "throw e = (Inl e, [])"

definition pure_step :: "exn + 'a \<Rightarrow> 'a traced" where
  "pure_step r = (r, [])"

definition call :: "event \<Rightarrow> exn + 'a \<Rightarrow> 'a traced" where
  "call ev r = (r, [ev])"

definition andthen :: "'a traced \<Rightarrow> ('a \<Rightarrow> 'b traced) \<Rightarrow> 'b traced" where
  "andthen m k =
     (case m of
        (Inl e, es) \<Rightarrow> (Inl e, es)
      | (Inr x, es) \<Rightarrow> (case k x of (r, es') \<Rightarrow> (r, es @ es')))"

text \<open>A \<^verbatim>\<open>for\<close> loop that collects a result per element, and one that threads a state.\<close>

fun forM :: "'a list \<Rightarrow> ('a \<Rightarrow> 'b traced) \<Rightarrow> 'b list traced" where
  "forM [] body = ret []"
| "forM (x # xs) body =
     andthen (body x) (\<lambda>y. andthen (forM xs body) (\<lambda>ys. ret (y # ys)))"

fun foldM :: "('a \<Rightarrow> 's \<Rightarrow> 's traced) \<Rightarrow> 'a list \<Rightarrow> 's \<Rightarrow> 's traced" where
  "foldM body [] s = ret s"
| "foldM body (x # xs) s = andthen (body x s) (foldM body xs)"

subsection \<open>\<^verbatim>\<open>DaceProgram.generate_pdp\<close>\<close>

definition msg_requires_types :: string where
  "msg_requires_types = ''DaCe program compilation requires either type annotations or arrays''"

definition msg_argument_count :: "nat \<Rightarrow> string" where
  "msg_argument_count n =
     ''Arguments must match DaCe program parameters (expecting '' @ str_nat n @ '')''"

text \<open>
  \<^verbatim>\<open>{k: v.__name__ for k, v in dace_func.__globals__.items() if dtypes.ismodule(v)}\<close>
  and \<^verbatim>\<open>{v.name: v for k, v in global_vars.items() if isinstance(v, symbolic.symbol)}\<close>
\<close>

definition module_items :: "(string \<times> pyobj) list \<Rightarrow> (string \<times> string) list" where
  "module_items globals =
     concat (map (\<lambda>(k, v). case as_module v of Some n \<Rightarrow> [(k, n)] | None \<Rightarrow> []) globals)"

definition symbol_items :: "(string \<times> pyobj) list \<Rightarrow> (string \<times> pyobj) list" where
  "symbol_items global_vars =
     concat (map (\<lambda>(k, v). case as_symbol v of Some n \<Rightarrow> [(n, v)] | None \<Rightarrow> []) global_vars)"

text \<open>
  The dictionary \<^verbatim>\<open>modules\<close> of \<^verbatim>\<open>generate_pdp\<close>:
  the comprehension over the globals, then \<^verbatim>\<open>modules['builtins'] = ''\<close>.
\<close>

definition modules_of :: "pyfunction \<Rightarrow> (string \<times> string) list" where
  "modules_of dace_func =
     AList.update ''builtins'' [] (dict_of (module_items (fn_globals dace_func)))"

text \<open>
  The dictionary \<^verbatim>\<open>global_vars\<close> of \<^verbatim>\<open>generate_pdp\<close>: the allowed globals, then the
  symbols among them under their own names, then the allowed keyword arguments.
\<close>

definition global_vars_of :: "DaceProgram \<Rightarrow> (string \<times> pyobj) list" where
  "global_vars_of self =
     (let global_vars = dict_of (filter (\<lambda>(k, v). allowed v) (fn_globals (prog_f self)));
          global_vars = dict_update global_vars (dict_of (symbol_items global_vars));
          global_vars = dict_update global_vars
                          (dict_of (filter (\<lambda>(k, v). allowed v) (prog_kwargs self)))
      in global_vars)"

definition generate_pdp ::
  "('prim, 'st, 's) collaborators \<Rightarrow> DaceProgram \<Rightarrow> pyobj list
    \<Rightarrow> ('prim pdp \<times> (string \<times> string) list) traced" where
  "generate_pdp env self compilation_args =
     (let dace_func = prog_f self;
          args = prog_args self
      in andthen (pure_step (get_type_annotations dace_func (argnames self) args))
           (\<lambda>argtypes.
         andthen
           (if argtypes = [] then
              (if compilation_args = [] then throw (SyntaxError msg_requires_types)
               else if length compilation_args \<noteq> length (argnames self)
                 then throw (SyntaxError (msg_argument_count (length (argnames self))))
               else pure_step (descriptor_dict (zip (argnames self) compilation_args)))
            else ret argtypes)
           (\<lambda>argtypes.
         let global_vars = global_vars_of self;
             modules = modules_of dace_func
         in andthen
              (call (ParseDaceProgram argtypes)
                 (parse_dace_program env dace_func argtypes global_vars modules))
              (\<lambda>pdp. ret (pdp, modules)))))"

subsection \<open>\<^verbatim>\<open>parse_from_function\<close>\<close>

text \<open>
  The value passed as \<^verbatim>\<open>function\<close>: \<open>Some prog\<close> when it is an instance of
  \<^verbatim>\<open>DaceProgram\<close>, \<open>None\<close> when it is anything else. \<^verbatim>\<open>strict\<close> is \<open>Some True\<close>,
  \<open>Some False\<close> or \<open>None\<close>.
\<close>

definition msg_not_program :: string where
  "msg_not_program = ''Function must be of type dace.frontend.python.DaceProgram''"

text \<open>
  The condition of the source under which the strict transformations are applied:
  \<^verbatim>\<open>strict == True or (strict is None and Config.get_bool('optimizer', 'automatic_state_fusion'))\<close>
\<close>

definition apply_strict :: "config \<Rightarrow> bool option \<Rightarrow> bool" where
  "apply_strict get_bool strict =
     (strict = Some True \<or> (strict = None \<and> get_bool ''optimizer'' ''automatic_state_fusion''))"

definition parse_from_function ::
  "('prim, 'st, 's) collaborators \<Rightarrow> config \<Rightarrow> DaceProgram option \<Rightarrow> pyobj list
    \<Rightarrow> bool option \<Rightarrow> 's traced" where
  "parse_from_function env get_bool function compilation_args strict =
     (case function of
        None \<Rightarrow> throw (TypeError msg_not_program)
      | Some prog \<Rightarrow>
     andthen (generate_pdp env prog compilation_args) (\<lambda>(pdp, modules).
     andthen (call NewSDFG (SDFG env (pdp_name pdp))) (\<lambda>sdfg.
     andthen (call SetSourcecode (set_sourcecode env (pdp_source pdp) ''python'' sdfg)) (\<lambda>sdfg.
     andthen (forM (pdp_children pdp)
                (\<lambda>primitive. call InheritDependencies (inherit_dependencies env primitive)))
       (\<lambda>children.
     let pdp = pdp\<lparr>pdp_children := children\<rparr> in
     andthen (call CreateStatesSimple (create_states_simple env pdp sdfg))
       (\<lambda>(state_primitives, sdfg).
     andthen (call AllArrays (all_arrays env pdp)) (\<lambda>items.
     andthen (foldM (\<lambda>(dataname, datadesc) sdfg.
                call (AddDatadesc dataname) (add_datadesc env dataname datadesc sdfg))
              items sdfg) (\<lambda>sdfg.
     let sdfg = clear_symbols env sdfg in
     andthen (foldM (\<lambda>(symname, symtype) sdfg.
                if (case arrays env sdfg symname of None \<Rightarrow> True | Some d \<Rightarrow> is_Scalar d)
                then call (AddSymbol symname) (add_symbol env symname (dtype symtype) True sdfg)
                else ret sdfg)
              (pdp_argtypes pdp) sdfg) (\<lambda>sdfg.
     andthen (call TopologicalSort (topological_sort env sdfg (start_state env sdfg)))
       (\<lambda>stateList.
     andthen (foldM (\<lambda>(i, state) sdfg.
                if label env sdfg state = None \<or> label env sdfg state = Some []
                then call (SetLabel (''s'' @ str_nat i))
                       (set_label env state (''s'' @ str_nat i) sdfg)
                else ret sdfg)
              (enumerate 0 stateList) sdfg) (\<lambda>sdfg.
     andthen (foldM (\<lambda>(i, state) sdfg.
                andthen (pure_step (case state_primitives state of
                                      None \<Rightarrow> Inl (KeyError ''state'')
                                    | Some prims \<Rightarrow> Inr prims))
                  (\<lambda>prims. call BuildDataflowGraph
                              (build_dataflow_graph env sdfg state prims modules)))
              (enumerate 0 stateList) sdfg) (\<lambda>sdfg.
     andthen (call FillScopeConnectors (fill_scope_connectors env sdfg)) (\<lambda>sdfg.
     andthen (if propagate env sdfg
              then call PropagateLabels (propagate_labels_sdfg env sdfg)
              else ret sdfg) (\<lambda>sdfg.
     andthen (call DrawToFile (draw_to_file env True sdfg)) (\<lambda>sdfg.
     andthen (if apply_strict get_bool strict
              then call ApplyStrictTransformations (apply_strict_transformations env sdfg)
              else ret sdfg) (\<lambda>sdfg.
     andthen (call DrawToFile (draw_to_file env True sdfg)) (\<lambda>sdfg.
     andthen (call Validate (validate env sdfg)) (\<lambda>sdfg.
     ret sdfg))))))))))))))))))"

subsection \<open>\<^verbatim>\<open>parse_from_file\<close>\<close>

text \<open>
  The names bound at the top level of the module, by its imports, its \<^verbatim>\<open>def\<close>s and its
  \<^verbatim>\<open>class\<close>. A name that is used in a function body and is neither local nor bound here
  (nor a builtin) raises \<open>NameError\<close> when the expression is evaluated.
\<close>

definition module_names :: "string list" where
  "module_names =
     [''print_function'', ''OrderedDict'', ''wraps'', ''inspect'', ''ast'', ''copy'', ''sys'',
      ''numpy'', ''data'', ''symbolic'', ''dtypes'', ''Config'', ''astparser'', ''astutils'',
      ''depanalysis'', ''SDFG'', ''labeling'', ''_create_datadescriptor'',
      ''_get_type_annotations'', ''_get_argnames'', ''_compile_module'', ''parse_from_file'',
      ''parse_from_function'', ''DaceProgram'']"

text \<open>
  \<^verbatim>\<open>
  def parse_from_file(filename, *compilation_args):
      with open(filename, 'r') as f:
          code = f.read()
      mod = _compile_module(code, filename)
      programs = [program for program in mod.values() if isinstance(program, DaceProgram)]
      return [parse_function(p, *compilation_args) for p in programs]
  \<close>
  The comprehension calls the global \<^verbatim>\<open>parse_function\<close>; the name is looked up each
  time the element expression is evaluated. The compiled module is the list of its
  bindings, a bound value being \<open>Some prog\<close> when it is a \<^verbatim>\<open>DaceProgram\<close>.
\<close>

definition parse_function ::
  "('prim, 'st, 's) collaborators \<Rightarrow> config \<Rightarrow> DaceProgram \<Rightarrow> pyobj list \<Rightarrow> 's traced" where
  "parse_function env get_bool p compilation_args =
     (if ''parse_function'' \<in> set module_names
      then parse_from_function env get_bool (Some p) compilation_args None
      else throw (NameError ''parse_function''))"

definition parse_from_file ::
  "('prim, 'st, 's) collaborators \<Rightarrow> config \<Rightarrow> string \<Rightarrow> pyobj list \<Rightarrow> 's list traced" where
  "parse_from_file env get_bool filename compilation_args =
     andthen (call (OpenFile filename) (open_read env filename)) (\<lambda>code.
     andthen (call (CompileModule filename) (compile_module env code filename)) (\<lambda>gen_module.
     let programs = concat (map (\<lambda>(k, v). case v of Some p \<Rightarrow> [p] | None \<Rightarrow> []) gen_module)
     in forM programs (\<lambda>p. parse_function env get_bool p compilation_args)))"

subsection \<open>Properties of runs\<close>




subsection \<open>The error conditions of \<^verbatim>\<open>_get_type_annotations\<close>, in the specification's words\<close>

definition annotates_return :: "pyfunction \<Rightarrow> bool" where
  "annotates_return f = (''return'' \<in> set (map fst (type_annotations_of f)))"

definition both_sources :: "pyfunction \<Rightarrow> pyobj list \<Rightarrow> bool" where
  "both_sources f decorator_args = (decorator_args \<noteq> [] \<and> type_annotations_of f \<noteq> [])"






subsection \<open>The module aliases, in the specification's words\<close>

text \<open>
  \<open>lookup d k\<close> is \<^verbatim>\<open>d.get(k)\<close>. The specification asks for the alias of the builtin
  module and for one alias per module that the globals bind.
\<close>

definition lookup :: "('k \<times> 'v) list \<Rightarrow> 'k \<Rightarrow> 'v option" where
  "lookup d k = map_of d k"

definition binds_module :: "(string \<times> string) list \<Rightarrow> string \<times> pyobj \<Rightarrow> bool" where
  "binds_module modules kv =
     (case as_module (snd kv) of None \<Rightarrow> True | Some n \<Rightarrow> lookup modules (fst kv) = Some n)"

definition listed_aliases :: "(string \<times> pyobj) list \<Rightarrow> (string \<times> string) list \<Rightarrow> bool" where
  "listed_aliases globals modules =
     (lookup modules ''builtins'' = Some [] \<and> list_all (binds_module modules) globals)"

text \<open>The same, for the bindings under a name other than \<^verbatim>\<open>builtins\<close>.\<close>

definition aliases :: "(string \<times> pyobj) list \<Rightarrow> (string \<times> string) list \<Rightarrow> bool" where
  "aliases globals modules =
     (lookup modules ''builtins'' = Some []
      \<and> list_all (binds_module modules) (filter (\<lambda>kv. fst kv \<noteq> ''builtins'') globals))"

subsection \<open>Example inputs\<close>

definition plain_obj :: pyobj where
  "plain_obj =
     \<lparr> as_Data = None, descriptor_attr = None, as_ndarray = None, symbolic_type = None,
       as_typeclass = None, pytype = ''object'', allowed = False, as_module = None,
       as_symbol = None \<rparr>"

text \<open>A numpy array of four doubles, the type tag \<^verbatim>\<open>dace.float64\<close>, and two modules.\<close>

definition array_obj :: pyobj where
  "array_obj = plain_obj\<lparr> as_ndarray := Some (''float64'', [IntDim 4]), pytype := ''ndarray'' \<rparr>"

definition float64_obj :: pyobj where
  "float64_obj =
     plain_obj\<lparr> as_typeclass := Some (Typeclass ''float64''), pytype := ''typeclass'',
                allowed := True \<rparr>"

definition numpy_module :: pyobj where
  "numpy_module = plain_obj\<lparr> as_module := Some ''numpy'', pytype := ''module'' \<rparr>"

definition builtins_module :: pyobj where
  "builtins_module = plain_obj\<lparr> as_module := Some ''builtins'', pytype := ''module'' \<rparr>"

text \<open>
  \<^verbatim>\<open>def prog(A): ...\<close> in a module that has imported numpy as \<^verbatim>\<open>np\<close>, without and with
  an annotation of \<^verbatim>\<open>A\<close>, and the same function in a module that has imported
  \<^verbatim>\<open>builtins\<close>.
\<close>

definition fn_plain :: pyfunction where
  "fn_plain =
     \<lparr> fn_name = ''prog'', fn_args = [''A''], fn_annotations = Some [],
       fn_globals = [(''np'', numpy_module)] \<rparr>"

definition fn_annotated :: pyfunction where
  "fn_annotated = fn_plain\<lparr> fn_annotations := Some [(''A'', float64_obj)] \<rparr>"

definition fn_builtins :: pyfunction where
  "fn_builtins = fn_plain\<lparr> fn_globals := [(''builtins'', builtins_module)] \<rparr>"

text \<open>
  \<^verbatim>\<open>@dace.program\<close> on the three functions, and \<^verbatim>\<open>@dace.program(dace.float64)\<close> on the
  annotated one.
\<close>

definition prog_plain :: DaceProgram where
  "prog_plain = DaceProgram_init fn_plain [] []"

definition prog_annotated :: DaceProgram where
  "prog_annotated = DaceProgram_init fn_annotated [] []"

definition prog_builtins :: DaceProgram where
  "prog_builtins = DaceProgram_init fn_builtins [] []"

definition prog_both :: DaceProgram where
  "prog_both = DaceProgram_init fn_annotated [float64_obj] []"

text \<open>
  Collaborators that always succeed: the parser returns a program without primitives, the
  SDFG is a unit value with the single state \<open>0\<close>, labelled \<^verbatim>\<open>state\<close>. The file read by
  \<open>file_env\<close> binds one program, the file read by \<open>ok_env\<close> binds none.
\<close>

definition ok_env :: "(unit, nat, unit) collaborators" where
  "ok_env =
     \<lparr> parse_dace_program = (\<lambda>f argtypes global_vars modules.
         Inr \<lparr> pdp_name = fn_name f, pdp_source = [], pdp_children = [],
               pdp_argtypes = argtypes \<rparr>),
       all_arrays = (\<lambda>pdp. Inr (pdp_argtypes pdp)),
       inherit_dependencies = (\<lambda>primitive. Inr primitive),
       create_states_simple = (\<lambda>pdp sdfg. Inr (\<lambda>state. Some [], sdfg)),
       build_dataflow_graph = (\<lambda>sdfg state prims modules. Inr sdfg),
       propagate_labels_sdfg = (\<lambda>sdfg. Inr sdfg),
       SDFG = (\<lambda>name. Inr ()),
       set_sourcecode = (\<lambda>code lang sdfg. Inr sdfg),
       add_datadesc = (\<lambda>name desc sdfg. Inr sdfg),
       clear_symbols = (\<lambda>sdfg. sdfg),
       arrays = (\<lambda>sdfg name. None),
       add_symbol = (\<lambda>name t override sdfg. Inr sdfg),
       start_state = (\<lambda>sdfg. 0),
       topological_sort = (\<lambda>sdfg state. Inr [state]),
       label = (\<lambda>sdfg state. Some ''state''),
       set_label = (\<lambda>state l sdfg. Inr sdfg),
       fill_scope_connectors = (\<lambda>sdfg. Inr sdfg),
       propagate = (\<lambda>sdfg. True),
       draw_to_file = (\<lambda>recursive sdfg. Inr sdfg),
       apply_strict_transformations = (\<lambda>sdfg. Inr sdfg),
       validate = (\<lambda>sdfg. Inr sdfg),
       open_read = (\<lambda>filename. Inr ''pass''),
       compile_module = (\<lambda>code filename. Inr [(''np'', None)]) \<rparr>"

definition file_env :: "(unit, nat, unit) collaborators" where
  "file_env =
     ok_env\<lparr> compile_module := (\<lambda>code filename. Inr [(''np'', None), (''prog'', Some prog_annotated)]) \<rparr>"

definition no_fusion :: config where
  "no_fusion section key = False"

subsection \<open>\<^verbatim>\<open>_create_datadescriptor\<close> when its callees raise\<close>


record host_obj = pyobj +
  descriptor_getter_raises :: "exn option"

text \<open>
  The calls of \<^verbatim>\<open>_create_datadescriptor\<close> into code that is not part of the sources at
  hand, as parameters that can raise: \<^verbatim>\<open>dtypes.typeclass(t)\<close>, \<^verbatim>\<open>data.Array(dtype, shape)\<close>,
  \<^verbatim>\<open>data.Scalar(dtype)\<close>, and \<^verbatim>\<open>symbolic.symtype(obj)\<close> for a symbolic value of the
  declared type \<open>t\<close>.
\<close>

record dace_calls =
  typeclass_call :: "pytype \<Rightarrow> exn + typeclass"
  Array_call :: "typeclass \<Rightarrow> shape \<Rightarrow> exn + data"
  Scalar_call :: "typeclass \<Rightarrow> exn + data"
  symtype_call :: "typeclass \<Rightarrow> exn + typeclass"

definition getattr_descriptor_raising :: "host_obj \<Rightarrow> exn + data" where
  "getattr_descriptor_raising obj =
     (case descriptor_getter_raises obj of
        Some e \<Rightarrow> Inl e
      | None \<Rightarrow>
          (case descriptor_attr obj of
             None \<Rightarrow> Inl (AttributeError ''descriptor'')
           | Some d \<Rightarrow> Inr d))"

text \<open>
  The function of the source once more, over these values and calls; an exception of the
  access that is not an \<open>AttributeError\<close>, and an exception of a call, propagate.
\<close>

definition create_datadescriptor_with :: "dace_calls \<Rightarrow> host_obj \<Rightarrow> exn + data" where
  "create_datadescriptor_with calls obj =
     (case as_Data obj of
        Some d \<Rightarrow> Inr d
      | None \<Rightarrow>
          (case getattr_descriptor_raising obj of
             Inr d \<Rightarrow> Inr d
           | Inl (AttributeError a) \<Rightarrow>
               (case as_ndarray obj of
                  Some (t, shp) \<Rightarrow>
                    (case typeclass_call calls t of
                       Inl e \<Rightarrow> Inl e
                     | Inr tc \<Rightarrow> Array_call calls tc shp)
                | None \<Rightarrow>
                    (case symbolic_type obj of
                       Some t \<Rightarrow>
                         (case symtype_call calls t of
                            Inl e \<Rightarrow> Inl e
                          | Inr st \<Rightarrow> Scalar_call calls st)
                     | None \<Rightarrow>
                         (case as_typeclass obj of
                            Some tc \<Rightarrow> Scalar_call calls tc
                          | None \<Rightarrow>
                              (case typeclass_call calls (pytype obj) of
                                 Inl e \<Rightarrow> Inl e
                               | Inr tc \<Rightarrow> Scalar_call calls tc))))
           | Inl e \<Rightarrow> Inl e))"

text \<open>
  Modelled from the spec: the constructors \<^verbatim>\<open>dtypes.typeclass\<close>, \<^verbatim>\<open>data.Array\<close>,
  \<^verbatim>\<open>data.Scalar\<close> and the function \<^verbatim>\<open>symbolic.symtype\<close> as sections 3 and 4.1 of the
  specification describe them, each returning for every argument.
\<close>

definition spec_calls :: dace_calls where
  "spec_calls =
     \<lparr> typeclass_call = (\<lambda>t. Inr (Typeclass t)),
       Array_call = (\<lambda>t shp. Inr (Array t shp)),
       Scalar_call = (\<lambda>t. Inr (Scalar t)),
       symtype_call = (\<lambda>t. Inr t) \<rparr>"







section \<open>Helper facts\<close>

subsection \<open>The descriptor resolver\<close>


lemma create_datadescriptor_descriptor_of:
  "create_datadescriptor obj = Inr (descriptor_of obj)"
  by (simp add: create_datadescriptor_def getattr_descriptor_def descriptor_of_def
      priority_order_def split: option.splits)

text \<open>
  On the values of \<open>pyobj\<close> and with the constructors of the specification the two
  embeddings of \<^verbatim>\<open>_create_datadescriptor\<close> agree.
\<close>

lemma create_datadescriptor_with_spec:
  "descriptor_getter_raises obj = None \<Longrightarrow>
     create_datadescriptor_with spec_calls obj = create_datadescriptor (pyobj.truncate obj)"
  by (simp add: create_datadescriptor_with_def create_datadescriptor_def
      getattr_descriptor_raising_def getattr_descriptor_def spec_calls_def pyobj.truncate_def
      split: option.splits)

subsection \<open>Dictionaries\<close>

lemma update_fresh: "k \<notin> fst ` set d \<Longrightarrow> AList.update k v d = d @ [(k, v)]"
  by (induction d) auto

lemma dict_update_Nil [simp]: "dict_update d [] = d"
  by (simp add: dict_update_def)

lemma dict_update_Cons [simp]:
  "dict_update d ((k, v) # kvs) = dict_update (AList.update k v d) kvs"
  by (simp add: dict_update_def)

lemma dict_update_keys:
  "fst ` set (dict_update d kvs) = fst ` set d \<union> fst ` set kvs"
proof (induction kvs arbitrary: d)
  case Nil
  then show ?case by simp
next
  case (Cons kv kvs)
  obtain k v where kv: "kv = (k, v)" by (cases kv)
  have "fst ` set (dict_update (AList.update k v d) kvs)
          = fst ` set (AList.update k v d) \<union> fst ` set kvs"
    by (rule Cons.IH)
  with kv show ?case by (auto simp: dom_update)
qed


lemma dict_update_append:
  "distinct (map fst (d @ kvs)) \<Longrightarrow> dict_update d kvs = d @ kvs"
proof (induction kvs arbitrary: d)
  case Nil
  then show ?case by simp
next
  case (Cons kv kvs)
  obtain k v where kv: "kv = (k, v)" by (cases kv)
  from Cons.prems kv have fresh: "k \<notin> fst ` set d" by auto
  from Cons.prems kv have "distinct (map fst ((d @ [(k, v)]) @ kvs))" by auto
  then have "dict_update (d @ [(k, v)]) kvs = (d @ [(k, v)]) @ kvs" by (rule Cons.IH)
  with fresh kv show ?case by (simp add: update_fresh)
qed

lemma dict_of_distinct: "distinct (map fst kvs) \<Longrightarrow> dict_of kvs = kvs"
  using dict_update_append [of "[]" kvs] by (simp add: dict_of_def)

lemma dict_of_keys: "fst ` set (dict_of kvs) = fst ` set kvs"
  by (simp add: dict_of_def dict_update_keys)

lemma dict_of_Nil_iff: "dict_of kvs = [] \<longleftrightarrow> kvs = []"
  using dict_of_keys [of kvs] by (cases kvs) (auto simp: dict_of_def)

subsection \<open>Type annotations\<close>


lemma mapM_exn_total:
  "mapM_exn (\<lambda>(k, v). case create_datadescriptor v of Inl e \<Rightarrow> Inl e | Inr d \<Rightarrow> Inr (k, d)) items
     = Inr (map (\<lambda>(k, v). (k, descriptor_of v)) items)"
  by (induction items) (auto simp: create_datadescriptor_descriptor_of)

lemma descriptor_dict_total:
  "descriptor_dict items = Inr (dict_of (map (\<lambda>(k, v). (k, descriptor_of v)) items))"
  by (simp add: descriptor_dict_def mapM_exn_total)


lemma get_type_annotations_unfold:
  "get_type_annotations f f_argnames decorator_args =
     (if annotates_return f then Inl (TypeError msg_return_type)
      else if both_sources f decorator_args then Inl (SyntaxError msg_not_both)
      else if decorator_args \<noteq> [] then
        (if length decorator_args \<noteq> length f_argnames
         then Inl (SyntaxError (msg_decorator_count (length f_argnames)))
         else Inr (dict_of (zip f_argnames (map descriptor_of decorator_args))))
      else if type_annotations_of f \<noteq> [] \<and> length (type_annotations_of f) \<noteq> length f_argnames
        then Inl (SyntaxError msg_partial)
      else Inr (dict_of (map (\<lambda>(k, v). (k, descriptor_of v)) (type_annotations_of f))))"
  by (simp add: get_type_annotations_def annotates_return_def both_sources_def Let_def
      descriptor_dict_total zip_map2)




subsection \<open>Runs\<close>

lemma andthen_Inl [simp]: "andthen (Inl e, es) k = (Inl e, es)"
  by (simp add: andthen_def)


lemma andthen_throw [simp]: "andthen (throw e) k = throw e"
  by (simp add: throw_def)

lemma andthen_ret [simp]: "andthen (ret x) k = k x"
  by (simp add: ret_def andthen_def split: prod.splits)

lemma andthen_pure_step_Inr [simp]: "andthen (pure_step (Inr x)) k = k x"
  by (simp add: pure_step_def andthen_def split: prod.splits)

lemma andthen_pure_step_Inl [simp]: "andthen (pure_step (Inl e)) k = (Inl e, [])"
  by (simp add: pure_step_def)

lemma andthen_success:
  assumes "fst (andthen m k) = Inr y"
  obtains x where "fst m = Inr x" and "fst (k x) = Inr y"
    and "snd (andthen m k) = snd m @ snd (k x)"
  using assms by (cases m) (auto simp: andthen_def split: sum.splits prod.splits)










subsection \<open>The calls of the driver\<close>








subsection \<open>Unfolding the examples\<close>

lemmas example_defs =
  plain_obj_def array_obj_def float64_obj_def numpy_module_def fn_plain_def
  fn_annotated_def prog_plain_def prog_annotated_def DaceProgram_init_def get_argnames_def
  ok_env_def no_fusion_def

lemmas run_defs =
  parse_from_function_def generate_pdp_def get_type_annotations_def type_annotations_of_def
  descriptor_dict_def create_datadescriptor_def getattr_descriptor_def dict_of_def
  global_vars_of_def modules_of_def module_items_def symbol_items_def apply_strict_def
  andthen_def call_def ret_def throw_def pure_step_def Let_def






lemma generate_pdp_modules:
  assumes "fst (generate_pdp env self compilation_args) = Inr (pdp, modules)"
  shows "modules = modules_of (prog_f self)"
proof -
  from assms obtain argtypes pdp' where
    "fst (ret (pdp', modules_of (prog_f self))
            :: (exn + ('a pdp \<times> (string \<times> string) list)) \<times> event list) = Inr (pdp, modules)"
    unfolding generate_pdp_def Let_def
    by (elim andthen_success)
  then show ?thesis by (simp add: ret_def)
qed

subsection \<open>Module aliases\<close>

lemma module_items_Nil [simp]: "module_items [] = []"
  by (simp add: module_items_def)

lemma module_items_Cons [simp]:
  "module_items ((k, v) # g)
     = (case as_module v of Some n \<Rightarrow> [(k, n)] | None \<Rightarrow> []) @ module_items g"
  by (simp add: module_items_def)

lemma module_items_keys: "fst ` set (module_items g) \<subseteq> fst ` set g"
proof (induction g)
  case Nil
  show ?case by simp
next
  case (Cons kv g)
  obtain k v where kv: "kv = (k, v)" by (cases kv)
  from Cons show ?case unfolding kv by (cases "as_module v") auto
qed

lemma module_items_distinct:
  "distinct (map fst g) \<Longrightarrow> distinct (map fst (module_items g))"
proof (induction g)
  case Nil
  then show ?case by simp
next
  case (Cons kv g)
  obtain k v where kv: "kv = (k, v)" by (cases kv)
  have step: "module_items (kv # g)
      = (case as_module v of Some n \<Rightarrow> [(k, n)] | None \<Rightarrow> []) @ module_items g"
    by (simp add: kv)
  from Cons.prems kv have "k \<notin> fst ` set g" by auto
  with module_items_keys [of g] have "k \<notin> fst ` set (module_items g)" by blast
  moreover from Cons have "distinct (map fst (module_items g))" by simp
  ultimately show ?case by (simp add: step split: option.splits)
qed

lemma module_items_member:
  "(k, v) \<in> set g \<Longrightarrow> as_module v = Some n \<Longrightarrow> (k, n) \<in> set (module_items g)"
  by (induction g) auto

lemma lookup_modules_of_builtins: "lookup (modules_of f) ''builtins'' = Some []"
  by (simp add: lookup_def modules_of_def update_conv')

lemma lookup_modules_of_other:
  assumes d: "distinct (map fst (fn_globals f))" and k: "k \<noteq> ''builtins''"
    and m: "(k, v) \<in> set (fn_globals f)" and n: "as_module v = Some n"
  shows "lookup (modules_of f) k = Some n"
proof -
  have dm: "distinct (map fst (module_items (fn_globals f)))"
    using d by (rule module_items_distinct)
  have "(k, n) \<in> set (module_items (fn_globals f))"
    using m n by (rule module_items_member)
  with dm have "map_of (module_items (fn_globals f)) k = Some n" by simp
  with dm k show ?thesis
    by (simp add: lookup_def modules_of_def update_conv' dict_of_distinct)
qed

lemma aliases_modules_of:
  assumes "distinct (map fst (fn_globals f))"
  shows "aliases (fn_globals f) (modules_of f)"
  unfolding aliases_def list_all_iff binds_module_def
proof (intro conjI ballI)
  show "lookup (modules_of f) ''builtins'' = Some []" by (rule lookup_modules_of_builtins)
next
  fix kv
  assume kv: "kv \<in> set (filter (\<lambda>kv. fst kv \<noteq> ''builtins'') (fn_globals f))"
  show "case as_module (snd kv) of None \<Rightarrow> True
        | Some n \<Rightarrow> lookup (modules_of f) (fst kv) = Some n"
  proof (cases "as_module (snd kv)")
    case None
    then show ?thesis by simp
  next
    case (Some n)
    from kv have "fst kv \<noteq> ''builtins''" and "(fst kv, snd kv) \<in> set (fn_globals f)"
      by simp_all
    with assms Some have "lookup (modules_of f) (fst kv) = Some n"
      by (intro lookup_modules_of_other)
    with Some show ?thesis by simp
  qed
qed

section \<open>The claims\<close>

text \<open>
  Claim C1. A program that has decorator type arguments and inline annotations at once is
  rejected with a usage error: \<^verbatim>\<open>_get_type_annotations\<close> raises, so \<^verbatim>\<open>generate_pdp\<close> and
  \<^verbatim>\<open>parse_from_function\<close> end with that error and an empty list of calls, that is before
  the AST parser (or any other collaborator) is called. The error is the \<open>SyntaxError\<close>
  about the two sources, or the \<open>TypeError\<close> about the return type when the annotations
  also name \<^verbatim>\<open>return\<close>.
\<close>

theorem both_sources_fail_before_parsing:
  assumes "prog_args self \<noteq> []" and "type_annotations_of (prog_f self) \<noteq> []"
  shows "\<exists>e. usage_error e
           \<and> get_type_annotations (prog_f self) (argnames self) (prog_args self) = Inl e
           \<and> generate_pdp env self compilation_args = (Inl e, [])
           \<and> parse_from_function env get_bool (Some self) compilation_args strict = (Inl e, [])"
proof -
  let ?e = "if annotates_return (prog_f self) then TypeError msg_return_type
            else SyntaxError msg_not_both"
  from assms have raised:
    "get_type_annotations (prog_f self) (argnames self) (prog_args self) = Inl ?e"
    by (simp add: get_type_annotations_unfold both_sources_def)
  then have gen: "generate_pdp env self compilation_args = (Inl ?e, [])"
    by (simp add: generate_pdp_def Let_def)
  then have "parse_from_function env get_bool (Some self) compilation_args strict = (Inl ?e, [])"
    by (simp add: parse_from_function_def)
  moreover have "usage_error ?e" by simp
  ultimately show ?thesis using raised gen by blast
qed

text \<open>
  The program \<open>prog_both\<close> has the decorator argument \<^verbatim>\<open>dace.float64\<close> and an annotation
  of its parameter.
\<close>

theorem both_sources_fail_before_parsing_witness:
  "prog_args prog_both \<noteq> [] \<and> type_annotations_of (prog_f prog_both) \<noteq> []
   \<and> (\<exists>e. usage_error e
           \<and> get_type_annotations (prog_f prog_both) (argnames prog_both) (prog_args prog_both)
               = Inl e
           \<and> generate_pdp ok_env prog_both [array_obj] = (Inl e, [])
           \<and> parse_from_function ok_env no_fusion (Some prog_both) [array_obj] None = (Inl e, []))"
proof -
  have a: "prog_args prog_both \<noteq> []"
    by (simp add: prog_both_def example_defs)
  have b: "type_annotations_of (prog_f prog_both) \<noteq> []"
    by (simp add: prog_both_def example_defs type_annotations_of_def)
  from a b both_sources_fail_before_parsing [OF a b, of ok_env "[array_obj]" no_fusion None]
  show ?thesis by simp
qed
















text \<open>
  A function whose globals bind the name \<^verbatim>\<open>builtins\<close> to the module of that name: the
  returned aliases map \<^verbatim>\<open>builtins\<close> to the empty string, not to the name of the module.
\<close>

theorem builtins_alias_counterexample:
  "generate_pdp ok_env prog_builtins [array_obj] =
     (Inr (\<lparr>pdp_name = ''prog'', pdp_source = [], pdp_children = [],
             pdp_argtypes = [(''A'', Array (Typeclass ''float64'') [IntDim 4])]\<rparr>,
           [(''builtins'', [])]),
      [ParseDaceProgram [(''A'', Array (Typeclass ''float64'') [IntDim 4])]])
   \<and> \<not> listed_aliases (fn_globals (prog_f prog_builtins)) [(''builtins'', [])]"
  by (simp add: listed_aliases_def binds_module_def lookup_def prog_builtins_def
      fn_builtins_def builtins_module_def example_defs run_defs)

text \<open>
  Claim C9, as the code has it. The module aliases that \<^verbatim>\<open>generate_pdp\<close> returns map
  \<^verbatim>\<open>builtins\<close> to the empty string and, for every module that the globals of the
  function bind under a name other than \<^verbatim>\<open>builtins\<close>, that name to the name of the
  module.
\<close>

theorem module_aliases_of_generate_pdp:
  assumes "fst (generate_pdp env self compilation_args) = Inr (pdp, modules)"
    and "distinct (map fst (fn_globals (prog_f self)))"
  shows "aliases (fn_globals (prog_f self)) modules"
proof -
  from assms(1) have "modules = modules_of (prog_f self)" by (rule generate_pdp_modules)
  with aliases_modules_of [OF assms(2)] show ?thesis by simp
qed

text \<open>
  The example program, whose globals bind \<^verbatim>\<open>np\<close> to numpy.
\<close>

theorem module_aliases_of_generate_pdp_witness:
  "fst (generate_pdp ok_env prog_plain [array_obj]) =
     Inr (\<lparr>pdp_name = ''prog'', pdp_source = [], pdp_children = [],
            pdp_argtypes = [(''A'', Array (Typeclass ''float64'') [IntDim 4])]\<rparr>,
          [(''np'', ''numpy''), (''builtins'', [])])
   \<and> distinct (map fst (fn_globals (prog_f prog_plain)))
   \<and> aliases (fn_globals (prog_f prog_plain)) [(''np'', ''numpy''), (''builtins'', [])]
   \<and> lookup [(''np'', ''numpy''), (''builtins'', [])] ''np'' = Some ''numpy''"
proof -
  have a: "fst (generate_pdp ok_env prog_plain [array_obj]) =
     Inr (\<lparr>pdp_name = ''prog'', pdp_source = [], pdp_children = [],
            pdp_argtypes = [(''A'', Array (Typeclass ''float64'') [IntDim 4])]\<rparr>,
          [(''np'', ''numpy''), (''builtins'', [])])"
    by (simp add: example_defs run_defs)
  have b: "distinct (map fst (fn_globals (prog_f prog_plain)))"
    by (simp add: example_defs)
  from a b module_aliases_of_generate_pdp [OF a b] show ?thesis
    by (simp add: lookup_def)
qed

text \<open>
  Claim C10 at a file that binds one program: \<^verbatim>\<open>parse_from_file\<close> raises \<open>NameError\<close>,
  because the module binds no name \<^verbatim>\<open>parse_function\<close>, although
  \<^verbatim>\<open>parse_from_function\<close> builds the SDFG of that program. For a file that binds no
  program the result is the empty list.
\<close>

theorem parse_from_file_name_error:
  "parse_from_file file_env no_fusion ''kernels.py'' [] =
     (Inl (NameError ''parse_function''), [OpenFile ''kernels.py'', CompileModule ''kernels.py''])
   \<and> fst (parse_from_function file_env no_fusion (Some prog_annotated) [] None) = Inr ()
   \<and> parse_from_file ok_env no_fusion ''kernels.py'' [] =
       (Inr [], [OpenFile ''kernels.py'', CompileModule ''kernels.py''])"
  by (simp add: parse_from_file_def parse_function_def module_names_def file_env_def
      example_defs run_defs)

end
